theory Spec2Isabelle
  imports Main "HOL-Library.Word"
begin

section \<open>State.h: the state model\<close>

text \<open>
  The three structs of \<^verbatim>\<open>State.h\<close> are records, a \<^verbatim>\<open>std::string\<close> is a
  \<^typ>\<open>string\<close> (a list of 8-bit characters). Both slices have a field called
  \<^verbatim>\<open>activePage\<close>; the two selectors are told apart by the record's name,
  \<open>SidebarState.activePage\<close> and \<open>UserProfileState.activePage\<close>.
\<close>

record SidebarState =
  activePage :: string
  headerComponent :: string

record UserProfileState =
  visible :: bool
  activePage :: string

record AppState =
  sidebar :: SidebarState
  userProfile :: UserProfileState

text \<open>
  The default member initialisers of the structs: what the implicit default constructor
  of each struct produces.
\<close>

definition SidebarState_init :: SidebarState where
  "SidebarState_init =
     \<lparr>SidebarState.activePage = ''chatList'', headerComponent = ''ChatHeader''\<rparr>"

definition UserProfileState_init :: UserProfileState where
  "UserProfileState_init =
     \<lparr>visible = False, UserProfileState.activePage = ''UserProfile''\<rparr>"

definition AppState_init :: AppState where
  "AppState_init = \<lparr>sidebar = SidebarState_init, userProfile = UserProfileState_init\<rparr>"

section \<open>State.h: the action model\<close>

datatype ActionType = SidebarChangeActivePage | UserProfileShow | UserProfileHide

text \<open>
  \<^verbatim>\<open>std::variant<std::monostate, std::string, bool, int>\<close>: one constructor for each
  alternative, in the order of the declaration. The \<^verbatim>\<open>int\<close> alternative is a 32-bit
  word; the reducer never reads it.
\<close>

datatype ActionPayload =
    P_monostate
  | P_string string
  | P_bool bool
  | P_int "32 word"

record Action =
  type :: ActionType
  payload :: ActionPayload

text \<open>
  \<^verbatim>\<open>std::get_if<std::string>(&action.payload)\<close>: a pointer to the string when the variant
  holds that alternative and the null pointer otherwise. It never throws.
\<close>

fun get_if_string :: "ActionPayload \<Rightarrow> string option" where
  "get_if_string (P_string s) = Some s"
| "get_if_string P_monostate = None"
| "get_if_string (P_bool b) = None"
| "get_if_string (P_int i) = None"

section \<open>Store.h, Store.cpp: the store\<close>

text \<open>
  The only data member of the class is \<^verbatim>\<open>m_state\<close>. The constructor has an empty body
  and no member initialiser for it, so a new store holds the default \<^verbatim>\<open>AppState\<close>.
\<close>

record Store =
  m_state :: AppState

definition Store_Store :: Store where
  "Store_Store = \<lparr>m_state = AppState_init\<rparr>"

text \<open>
  What the store does beyond changing \<^verbatim>\<open>m_state\<close> is recorded as a sequence of events,
  oldest first:
  \<^item> \<open>QDebug items\<close> is one \<^verbatim>\<open>qDebug() << ...\<close> statement with the items streamed into it;
    a string literal is \<open>Literal\<close>, and \<open>FromStdString s\<close> is the
    \<^verbatim>\<open>QString::fromStdString(s)\<close> of the \<^verbatim>\<open>std::string\<close> \<open>s\<close>;
  \<^item> \<open>StateChanged st\<close> is one \<^verbatim>\<open>emit stateChanged()\<close>. The signal itself carries no
    argument: \<open>st\<close> is the value that \<^verbatim>\<open>getState()\<close> returns while the signal is
    delivered, which is what a connected slot reads.
\<close>

datatype DebugItem = Literal string | FromStdString string

datatype Event = QDebug "DebugItem list" | StateChanged AppState

text \<open>
  The methods mutate the one store of the process (the function-local static
  \<^verbatim>\<open>storeInstance\<close> of \<^verbatim>\<open>Store::instance()\<close>; the constructor is private and copying is
  deleted) and write events. Both are passed explicitly: a method takes the \<open>World\<close> before
  the call and returns the one after it.
\<close>

record World =
  storeInstance :: Store
  trace :: "Event list"

definition qDebug :: "DebugItem list \<Rightarrow> World \<Rightarrow> World" where
  "qDebug items w = w\<lparr>trace := trace w @ [QDebug items]\<rparr>"

definition emit_stateChanged :: "World \<Rightarrow> World" where
  "emit_stateChanged w =
     w\<lparr>trace := trace w @ [StateChanged (m_state (storeInstance w))]\<rparr>"

text \<open>
  \<^verbatim>\<open>Store::reduce\<close>. The \<^verbatim>\<open>switch\<close> has one case for each enumerator. An assignment
  \<^verbatim>\<open>m_state.a.b = v\<close> is the nested update of the field \<open>b\<close> of the field \<open>a\<close> of
  \<open>m_state\<close>; the debug line of the first case reads the field back after the assignment.
\<close>

definition reduce :: "Action \<Rightarrow> World \<Rightarrow> World" where
  "reduce action w =
     (case type action of
        SidebarChangeActivePage \<Rightarrow>
          (case get_if_string (payload action) of
             Some pageName \<Rightarrow>
               (let w' = storeInstance_update (m_state_update (sidebar_update
                           (SidebarState.activePage_update (\<lambda>_. pageName)))) w
                in qDebug [Literal ''State Changed: Sidebar active page is now'',
                           FromStdString
                             (SidebarState.activePage (sidebar (m_state (storeInstance w'))))]
                     w')
           | None \<Rightarrow> w)
      | UserProfileShow \<Rightarrow>
          qDebug [Literal ''State Changed: User profile is now visible'']
            (storeInstance_update (m_state_update (userProfile_update
               (visible_update (\<lambda>_. True)))) w)
      | UserProfileHide \<Rightarrow>
          qDebug [Literal ''State Changed: User profile is now hidden'']
            (storeInstance_update (m_state_update (userProfile_update
               (visible_update (\<lambda>_. False)))) w))"

text \<open>\<^verbatim>\<open>Store::dispatch\<close>: the reducer, then the signal.\<close>

definition dispatch :: "Action \<Rightarrow> World \<Rightarrow> World" where
  "dispatch action w = emit_stateChanged (reduce action w)"

text \<open>
  \<^verbatim>\<open>Store::getState\<close>: the value read, and the world after the call.
\<close>

definition getState :: "World \<Rightarrow> AppState \<times> World" where
  "getState w = (m_state (storeInstance w), w)"

text \<open>
  A process in which the store has just been constructed and \<open>out\<close> has been written so
  far, and the number of \<^verbatim>\<open>stateChanged\<close> emissions in a sequence of events.
\<close>

definition fresh :: "Event list \<Rightarrow> World" where
  "fresh out = \<lparr>storeInstance = Store_Store, trace = out\<rparr>"

fun emissions :: "Event list \<Rightarrow> nat" where
  "emissions [] = 0"
| "emissions (StateChanged st # es) = Suc (emissions es)"
| "emissions (QDebug items # es) = emissions es"

section \<open>What the methods do to the store and to the trace\<close>

lemma storeInstance_qDebug: "storeInstance (qDebug items w) = storeInstance w"
  by (simp add: qDebug_def)

lemma trace_qDebug: "trace (qDebug items w) = trace w @ [QDebug items]"
  by (simp add: qDebug_def)

lemma storeInstance_emit: "storeInstance (emit_stateChanged w) = storeInstance w"
  by (simp add: emit_stateChanged_def)

lemma trace_emit:
  "trace (emit_stateChanged w) = trace w @ [StateChanged (m_state (storeInstance w))]"
  by (simp add: emit_stateChanged_def)

lemma storeInstance_dispatch: "storeInstance (dispatch a w) = storeInstance (reduce a w)"
  by (simp add: dispatch_def storeInstance_emit)

text \<open>The three rows of the transition table, as updates of \<open>m_state\<close>.\<close>

lemma reduce_string:
  "m_state (storeInstance (reduce \<lparr>type = SidebarChangeActivePage, payload = P_string s\<rparr> w)) =
     (m_state (storeInstance w))
       \<lparr>sidebar := (sidebar (m_state (storeInstance w)))\<lparr>SidebarState.activePage := s\<rparr>\<rparr>"
  by (simp add: reduce_def storeInstance_qDebug)

lemma reduce_show:
  "m_state (storeInstance (reduce \<lparr>type = UserProfileShow, payload = p\<rparr> w)) =
     (m_state (storeInstance w))
       \<lparr>userProfile := (userProfile (m_state (storeInstance w)))\<lparr>visible := True\<rparr>\<rparr>"
  by (simp add: reduce_def storeInstance_qDebug)

lemma reduce_hide:
  "m_state (storeInstance (reduce \<lparr>type = UserProfileHide, payload = p\<rparr> w)) =
     (m_state (storeInstance w))
       \<lparr>userProfile := (userProfile (m_state (storeInstance w)))\<lparr>visible := False\<rparr>\<rparr>"
  by (simp add: reduce_def storeInstance_qDebug)

text \<open>
  A payload that is not a string is an absent one, a boolean or an integer, and
  \<open>get_if_string\<close> is the null pointer on exactly those.
\<close>

lemma not_string_iff:
  "(\<forall>s. p \<noteq> P_string s) \<longleftrightarrow> p = P_monostate \<or> (\<exists>b. p = P_bool b) \<or> (\<exists>i. p = P_int i)"
  by (cases p) simp_all

lemma get_if_string_None: "(\<forall>s. p \<noteq> P_string s) \<Longrightarrow> get_if_string p = None"
  by (cases p) simp_all

lemma reduce_mismatch:
  "(\<forall>s. p \<noteq> P_string s) \<Longrightarrow> reduce \<lparr>type = SidebarChangeActivePage, payload = p\<rparr> w = w"
  by (simp add: reduce_def get_if_string_None)

text \<open>The reducer writes at most one debug line, and never emits the signal itself.\<close>

lemma emissions_append: "emissions (xs @ ys) = emissions xs + emissions ys"
  by (induction xs rule: emissions.induct) simp_all

lemma trace_reduce_cases:
  "trace (reduce a w) = trace w \<or> (\<exists>items. trace (reduce a w) = trace w @ [QDebug items])"
  by (cases "type a"; cases "payload a") (simp_all add: reduce_def trace_qDebug)

lemma emissions_reduce: "emissions (trace (reduce a w)) = emissions (trace w)"
  using trace_reduce_cases [of a w] by (auto simp: emissions_append)

text \<open>Two fields that no case of the reducer assigns.\<close>

lemma headerComponent_reduce:
  "headerComponent (sidebar (m_state (storeInstance (reduce a w)))) =
     headerComponent (sidebar (m_state (storeInstance w)))"
  by (cases "type a"; cases "payload a") (simp_all add: reduce_def storeInstance_qDebug)

lemma profile_activePage_reduce:
  "UserProfileState.activePage (userProfile (m_state (storeInstance (reduce a w)))) =
     UserProfileState.activePage (userProfile (m_state (storeInstance w)))"
  by (cases "type a"; cases "payload a") (simp_all add: reduce_def storeInstance_qDebug)

text \<open>
  A sequence of dispatches is \<open>fold dispatch acts w\<close>, which runs the actions of \<open>acts\<close>
  from the first to the last. The invariants follow by induction on the sequence, for an
  arbitrary starting world.
\<close>

lemma headerComponent_fold:
  "headerComponent (sidebar (m_state (storeInstance (fold dispatch acts w)))) =
     headerComponent (sidebar (m_state (storeInstance w)))"
  by (induction acts arbitrary: w) (simp_all add: storeInstance_dispatch headerComponent_reduce)

lemma profile_activePage_fold:
  "UserProfileState.activePage (userProfile (m_state (storeInstance (fold dispatch acts w)))) =
     UserProfileState.activePage (userProfile (m_state (storeInstance w)))"
  by (induction acts arbitrary: w)
     (simp_all add: storeInstance_dispatch profile_activePage_reduce)

lemma emissions_fold:
  "emissions (trace (fold dispatch acts w)) = emissions (trace w) + length acts"
  by (induction acts arbitrary: w)
     (simp_all add: dispatch_def trace_emit emissions_append emissions_reduce)

section \<open>The claims\<close>

text \<open>
  C1. For every state and every string \<open>s\<close>, dispatching a \<open>SidebarChangeActivePage\<close> action
  whose payload is the string \<open>s\<close> sets \<open>sidebar.activePage\<close> to \<open>s\<close> and leaves the
  \<open>userProfile\<close> slice as it was, both \<open>userProfile.visible\<close> and
  \<open>userProfile.activePage\<close>; in particular the payload \<open>''filesSidebar''\<close> makes
  \<open>sidebar.activePage\<close> equal to \<open>''filesSidebar''\<close>.
\<close>

theorem dispatch_SidebarChangeActivePage_string:
  "SidebarState.activePage (sidebar (fst (getState
      (dispatch \<lparr>type = SidebarChangeActivePage, payload = P_string s\<rparr> w)))) = s
   \<and> userProfile (fst (getState
        (dispatch \<lparr>type = SidebarChangeActivePage, payload = P_string s\<rparr> w))) =
      userProfile (fst (getState w))
   \<and> visible (userProfile (fst (getState
        (dispatch \<lparr>type = SidebarChangeActivePage, payload = P_string s\<rparr> w)))) =
      visible (userProfile (fst (getState w)))
   \<and> UserProfileState.activePage (userProfile (fst (getState
        (dispatch \<lparr>type = SidebarChangeActivePage, payload = P_string s\<rparr> w)))) =
      UserProfileState.activePage (userProfile (fst (getState w)))
   \<and> SidebarState.activePage (sidebar (fst (getState
        (dispatch \<lparr>type = SidebarChangeActivePage, payload = P_string ''filesSidebar''\<rparr> w)))) =
      ''filesSidebar''"
  by (simp add: getState_def storeInstance_dispatch reduce_string)

text \<open>
  C2. A store that has just been constructed, before any dispatch, returns from
  \<open>getState\<close> a state with \<open>sidebar.activePage = ''chatList''\<close>,
  \<open>sidebar.headerComponent = ''ChatHeader''\<close>, \<open>userProfile.visible = False\<close> and
  \<open>userProfile.activePage = ''UserProfile''\<close>. Every field of the record has a value, so
  the state is fully populated.
\<close>

theorem fresh_store_getState:
  "SidebarState.activePage (sidebar (fst (getState (fresh out)))) = ''chatList''
   \<and> headerComponent (sidebar (fst (getState (fresh out)))) = ''ChatHeader''
   \<and> visible (userProfile (fst (getState (fresh out)))) = False
   \<and> UserProfileState.activePage (userProfile (fst (getState (fresh out)))) = ''UserProfile''
   \<and> fst (getState (fresh out)) =
       \<lparr>sidebar = \<lparr>SidebarState.activePage = ''chatList'', headerComponent = ''ChatHeader''\<rparr>,
        userProfile = \<lparr>visible = False, UserProfileState.activePage = ''UserProfile''\<rparr>\<rparr>"
  by (simp add: getState_def fresh_def Store_Store_def AppState_init_def
        SidebarState_init_def UserProfileState_init_def)

text \<open>
  C3. For every state, dispatching a \<open>SidebarChangeActivePage\<close> action whose payload is not
  a string (absent, boolean or integer) leaves the whole state as it was:
  \<open>sidebar.activePage\<close> and every other field keep their values, and the reducer returns
  the world it was given, without a debug line. No error is raised: \<open>dispatch\<close> has no
  failing branch, it returns a world for every action. The witness is the action
  \<open>{SidebarChangeActivePage, true}\<close>.
\<close>

theorem dispatch_SidebarChangeActivePage_mismatch:
  assumes "\<forall>s. p \<noteq> P_string s"
  shows "fst (getState (dispatch \<lparr>type = SidebarChangeActivePage, payload = p\<rparr> w)) =
           fst (getState w)
         \<and> SidebarState.activePage (sidebar (fst (getState
             (dispatch \<lparr>type = SidebarChangeActivePage, payload = p\<rparr> w)))) =
           SidebarState.activePage (sidebar (fst (getState w)))
         \<and> storeInstance (dispatch \<lparr>type = SidebarChangeActivePage, payload = p\<rparr> w) =
           storeInstance w
         \<and> reduce \<lparr>type = SidebarChangeActivePage, payload = p\<rparr> w = w"
  using assms by (simp add: getState_def storeInstance_dispatch reduce_mismatch)

theorem dispatch_SidebarChangeActivePage_mismatch_witness:
  "(\<forall>s. P_bool True \<noteq> P_string s)
   \<and> fst (getState (dispatch \<lparr>type = SidebarChangeActivePage, payload = P_bool True\<rparr>
        (fresh []))) = fst (getState (fresh []))
   \<and> SidebarState.activePage (sidebar (fst (getState
        (dispatch \<lparr>type = SidebarChangeActivePage, payload = P_bool True\<rparr> (fresh []))))) =
      ''chatList''"
proof -
  have h: "\<forall>s. P_bool True \<noteq> P_string s" by simp
  show ?thesis
    using h dispatch_SidebarChangeActivePage_mismatch [OF h, of "fresh []"]
    by (simp add: getState_def fresh_def Store_Store_def AppState_init_def
          SidebarState_init_def)
qed

text \<open>
  C4. For every state and every payload, dispatching a \<open>UserProfileShow\<close> action sets
  \<open>userProfile.visible\<close> to true and dispatching a \<open>UserProfileHide\<close> action sets it to
  false. The payload is not read, and the state after the dispatch is the state before it
  with that one field replaced, so no other field is affected.
\<close>

theorem dispatch_UserProfileShow_Hide:
  "visible (userProfile (fst (getState
      (dispatch \<lparr>type = UserProfileShow, payload = p\<rparr> w)))) = True
   \<and> fst (getState (dispatch \<lparr>type = UserProfileShow, payload = p\<rparr> w)) =
       (fst (getState w))\<lparr>userProfile := (userProfile (fst (getState w)))\<lparr>visible := True\<rparr>\<rparr>
   \<and> visible (userProfile (fst (getState
        (dispatch \<lparr>type = UserProfileHide, payload = p\<rparr> w)))) = False
   \<and> fst (getState (dispatch \<lparr>type = UserProfileHide, payload = p\<rparr> w)) =
       (fst (getState w))\<lparr>userProfile := (userProfile (fst (getState w)))\<lparr>visible := False\<rparr>\<rparr>"
  by (simp add: getState_def storeInstance_dispatch reduce_show reduce_hide)

text \<open>
  C5. Every call of \<open>dispatch\<close>, for every action and every state (so also for an action
  with a mismatched payload and for a reduction that changes no field), emits
  \<open>stateChanged\<close> exactly once: the events written before the call are kept, the events
  the call adds contain one emission, that emission is the last event of the call, and it
  is delivered with the state the reducer has produced, which is also the state the store
  holds when \<open>dispatch\<close> returns.
\<close>

theorem dispatch_emits_stateChanged_once:
  "take (length (trace w)) (trace (dispatch a w)) = trace w
   \<and> emissions (drop (length (trace w)) (trace (dispatch a w))) = 1
   \<and> last (trace (dispatch a w)) = StateChanged (m_state (storeInstance (reduce a w)))
   \<and> fst (getState (dispatch a w)) = m_state (storeInstance (reduce a w))"
  using trace_reduce_cases [of a w]
  by (auto simp: dispatch_def trace_emit storeInstance_emit getState_def)

text \<open>
  C6. Dispatching \<open>UserProfileShow\<close> twice in a row, from every state:
  \<open>userProfile.visible\<close> is true after the first dispatch and after the second, and the
  state after the second dispatch is the state after the first.
\<close>

theorem dispatch_UserProfileShow_idempotent:
  "visible (userProfile (fst (getState
      (dispatch \<lparr>type = UserProfileShow, payload = p\<rparr> w)))) = True
   \<and> visible (userProfile (fst (getState
      (dispatch \<lparr>type = UserProfileShow, payload = q\<rparr>
        (dispatch \<lparr>type = UserProfileShow, payload = p\<rparr> w))))) = True
   \<and> fst (getState (dispatch \<lparr>type = UserProfileShow, payload = q\<rparr>
        (dispatch \<lparr>type = UserProfileShow, payload = p\<rparr> w))) =
     fst (getState (dispatch \<lparr>type = UserProfileShow, payload = p\<rparr> w))"
  by (simp add: getState_def storeInstance_dispatch reduce_show)

text \<open>
  C7. \<open>getState\<close> is a pure read: the world after the call is the world before it (neither
  the stored state nor the trace changes), and a second call right after the first
  returns the same value.
\<close>

theorem getState_pure:
  "snd (getState w) = w
   \<and> fst (getState (snd (getState w))) = fst (getState w)"
  by (simp add: getState_def)

text \<open>
  C8. The reducer depends on the current \<open>AppState\<close> and on the action only: two runs that
  start from equal states with actions of the same type and the same payload end in equal
  states and write the same debug lines, whatever else differs between the two worlds
  (here, the events written before).
\<close>

theorem reduce_deterministic:
  assumes "m_state (storeInstance w1) = m_state (storeInstance w2)"
    and "type a1 = type a2" and "payload a1 = payload a2"
  shows "m_state (storeInstance (reduce a1 w1)) = m_state (storeInstance (reduce a2 w2))
         \<and> drop (length (trace w1)) (trace (reduce a1 w1)) =
           drop (length (trace w2)) (trace (reduce a2 w2))"
  using assms
  by (cases "type a2"; cases "payload a2")
     (simp_all add: reduce_def storeInstance_qDebug trace_qDebug)

theorem reduce_deterministic_witness:
  "m_state (storeInstance (fresh [])) = m_state (storeInstance (fresh [QDebug []]))
   \<and> m_state (storeInstance
        (reduce \<lparr>type = SidebarChangeActivePage, payload = P_string ''filesSidebar''\<rparr>
           (fresh []))) =
      m_state (storeInstance
        (reduce \<lparr>type = SidebarChangeActivePage, payload = P_string ''filesSidebar''\<rparr>
           (fresh [QDebug []])))"
proof -
  have h: "m_state (storeInstance (fresh [])) = m_state (storeInstance (fresh [QDebug []]))"
    by (simp add: fresh_def)
  show ?thesis
    using h reduce_deterministic [OF h, of
        "\<lparr>type = SidebarChangeActivePage, payload = P_string ''filesSidebar''\<rparr>"
        "\<lparr>type = SidebarChangeActivePage, payload = P_string ''filesSidebar''\<rparr>"]
    by simp
qed

text \<open>
  C9. After every finite sequence of dispatches on a new store, whatever the types and
  payloads of the actions, \<open>sidebar.headerComponent\<close> is still \<open>''ChatHeader''\<close> and
  \<open>userProfile.activePage\<close> is still \<open>''UserProfile''\<close>: no action writes either field.
\<close>

theorem dispatch_sequence_keeps_defaults:
  "headerComponent (sidebar (fst (getState (fold dispatch acts (fresh out))))) = ''ChatHeader''
   \<and> UserProfileState.activePage
       (userProfile (fst (getState (fold dispatch acts (fresh out))))) = ''UserProfile''"
  by (simp add: getState_def headerComponent_fold profile_activePage_fold fresh_def
        Store_Store_def AppState_init_def SidebarState_init_def UserProfileState_init_def)

text \<open>
  C10. Actions on different slices commute: for every state, every string \<open>s\<close> and every
  action \<open>u\<close> of type \<open>UserProfileShow\<close> or \<open>UserProfileHide\<close>, dispatching
  \<open>{SidebarChangeActivePage, s}\<close> and then \<open>u\<close> ends in the same state as dispatching
  \<open>u\<close> and then \<open>{SidebarChangeActivePage, s}\<close>.
\<close>

theorem dispatch_sidebar_profile_commute:
  assumes "type u = UserProfileShow \<or> type u = UserProfileHide"
  shows "fst (getState (dispatch u
            (dispatch \<lparr>type = SidebarChangeActivePage, payload = P_string s\<rparr> w))) =
         fst (getState (dispatch \<lparr>type = SidebarChangeActivePage, payload = P_string s\<rparr>
            (dispatch u w)))"
  using assms
  by (auto simp: getState_def storeInstance_dispatch reduce_def storeInstance_qDebug)

theorem dispatch_sidebar_profile_commute_witness:
  "(type \<lparr>type = UserProfileShow, payload = P_monostate\<rparr> = UserProfileShow
      \<or> type \<lparr>type = UserProfileShow, payload = P_monostate\<rparr> = UserProfileHide)
   \<and> fst (getState (dispatch \<lparr>type = UserProfileShow, payload = P_monostate\<rparr>
        (dispatch \<lparr>type = SidebarChangeActivePage, payload = P_string ''filesSidebar''\<rparr>
           (fresh [])))) =
      fst (getState (dispatch \<lparr>type = SidebarChangeActivePage, payload = P_string ''filesSidebar''\<rparr>
        (dispatch \<lparr>type = UserProfileShow, payload = P_monostate\<rparr> (fresh []))))"
proof -
  have h: "type \<lparr>type = UserProfileShow, payload = P_monostate\<rparr> = UserProfileShow
             \<or> type \<lparr>type = UserProfileShow, payload = P_monostate\<rparr> = UserProfileHide"
    by simp
  show ?thesis
    using h dispatch_sidebar_profile_commute [OF h, of "''filesSidebar''" "fresh []"]
    by simp
qed

end
